theory Spec2Isabelle
  imports Main "HOL-Library.Word"
begin

unbundle bit_operations_syntax

section \<open>Data model\<close>

text \<open>
  The two hash maps of the repository (32-bit keys in \<^verbatim>\<open>tinyhashmap.h\<close>, 64-bit keys in
  \<^verbatim>\<open>tinyhashmap64.h\<close>) are embedded for a platform whose \<^verbatim>\<open>size_t\<close> has 64 bits.
  A handle is a pointer to the first value; the header lives in front of it. A handle is
  modelled as an optional header record (\<open>None\<close> is the \<^verbatim>\<open>NULL\<close> handle), the keys
  allocation as a list of words, and the value region as a list of value slots together with
  the reserved slot \<^verbatim>\<open>b[-1]\<close>. Copies of values (\<^verbatim>\<open>memcpy\<close> of one element) are
  modelled at slot granularity.
\<close>

type_synonym size_t = "64 word"
type_synonym u32 = "32 word"
type_synonym u64 = "64 word"

text \<open>
  The C allocator is a parameter: whether \<^verbatim>\<open>malloc\<close> of a byte count and \<^verbatim>\<open>calloc\<close>
  of a count and size succeed, what an uninitialised value slot holds, and the value whose
  bytes are all zero (written by \<^verbatim>\<open>memset\<close>).
\<close>

record 'v alloc =
  malloc_ok :: "size_t \<Rightarrow> bool"
  calloc_ok :: "size_t \<Rightarrow> size_t \<Rightarrow> bool"
  fresh :: "nat \<Rightarrow> 'v"
  zeroed :: 'v

text \<open>\<^verbatim>\<open>struct hmap__hdr { size_t len, maxlen; uint32_t *keys; }\<close> and the value region.\<close>

record 'v hmap_hdr =
  len :: size_t
  maxlen :: size_t
  keys :: "u32 list"
  nullval :: 'v
  vals :: "'v list"

text \<open>Reasons for which a growth returns the old pointer, as the comments of the source name them.\<close>

datatype grow_failure = Overflow | OutOfMemory

text \<open>Dereferencing the header of a \<^verbatim>\<open>NULL\<close> handle is undefined behaviour in C.\<close>

datatype error = NullDeref

section \<open>The 32-bit map\<close>

definition HMAP_LEN :: "'v hmap_hdr option \<Rightarrow> size_t" where
  "HMAP_LEN b = (case b of Some h \<Rightarrow> len h | None \<Rightarrow> 0)"

definition HMAP_MAX :: "'v hmap_hdr option \<Rightarrow> size_t" where
  "HMAP_MAX b = (case b of Some h \<Rightarrow> maxlen h | None \<Rightarrow> 0)"

definition HMAP_CAP :: "'v hmap_hdr option \<Rightarrow> size_t" where
  "HMAP_CAP b = (case b of Some h \<Rightarrow> maxlen h + 1 | None \<Rightarrow> 0)"

text \<open>\<^verbatim>\<open>i &= hdr->maxlen\<close> for a 32-bit \<open>i\<close>: the conjunction is taken in \<^verbatim>\<open>size_t\<close> and
  converted back.\<close>

definition hmap_mask :: "'v hmap_hdr \<Rightarrow> u32 \<Rightarrow> u32" where
  "hmap_mask hdr i = ucast ((ucast i :: size_t) AND maxlen hdr)"

text \<open>The \<^verbatim>\<open>for (i = key;; i++)\<close> loop of \<^verbatim>\<open>hmap__idx\<close> when \<open>del\<close> is 0, as the recursive
  call of the deletion scan runs it. The result is the header and the returned index
  (\<open>-1\<close> for absent).\<close>

partial_function (option) hmap_idx_probe ::
  "'v hmap_hdr \<Rightarrow> u32 \<Rightarrow> bool \<Rightarrow> u32 \<Rightarrow> ('v hmap_hdr \<times> int) option" where
  "hmap_idx_probe hdr key add i0 =
     (let i = hmap_mask hdr i0 in
      if keys hdr ! unat i = key then Some (hdr, uint i)
      else if keys hdr ! unat i = 0 then
        (if add then Some (hdr\<lparr>len := len hdr + 1, keys := (keys hdr)[unat i := key]\<rparr>, uint i)
         else Some (hdr, -1))
      else hmap_idx_probe hdr key add (i + 1))"

declare hmap_idx_probe.simps [code]

text \<open>\<^verbatim>\<open>b[r]\<close> for an index returned by \<^verbatim>\<open>hmap__idx\<close>: \<open>-1\<close> is the reserved slot.\<close>

definition hmap_at :: "'v hmap_hdr \<Rightarrow> int \<Rightarrow> 'v" where
  "hmap_at h r = (if r = -1 then nullval h else vals h ! nat r)"

definition hmap_store :: "'v hmap_hdr \<Rightarrow> int \<Rightarrow> 'v \<Rightarrow> 'v hmap_hdr" where
  "hmap_store h r v = (if r = -1 then h\<lparr>nullval := v\<rparr> else h\<lparr>vals := (vals h)[nat r := v]\<rparr>)"

text \<open>\<^verbatim>\<open>memcpy(((char*)(hdr + 1)) + dst, ((char*)(hdr + 1)) + src, n)\<close> with byte offsets
  \<open>dst\<close> and \<open>src\<close> into the value region, in which the element of slot \<open>s\<close> starts at
  byte \<open>(s + 1) * n\<close> and the reserved slot \<open>-1\<close> at byte 0. Offsets that are multiples of
  the element size copy one slot to another. Other offsets can only arise once the offset
  arithmetic has wrapped around; the bytes written then are not the bytes of one element,
  and the model leaves the slots they cover unspecified.\<close>

definition hmap_memcpy_elem :: "'v hmap_hdr \<Rightarrow> u32 \<Rightarrow> u32 \<Rightarrow> u32 \<Rightarrow> 'v hmap_hdr" where
  "hmap_memcpy_elem hdr dst src n =
     (if unat dst mod unat n = 0 then
        hmap_store hdr (int (unat dst div unat n) - 1)
          (if unat src mod unat n = 0 then hmap_at hdr (int (unat src div unat n) - 1)
           else undefined)
      else
        hmap_store (hmap_store hdr (int (unat dst div unat n) - 1) undefined)
          (int (unat dst div unat n)) undefined)"

text \<open>The \<^verbatim>\<open>while\<close> loop of the deletion: the scan over the occupied run that follows the
  cleared slot. It returns the header and the final \<open>i\<close>. The offsets \<open>(key + 1) * del\<close> and
  \<open>(i + 1) * del\<close> of the \<^verbatim>\<open>memcpy\<close> are computed in 32-bit unsigned arithmetic, as the
  operands \<^verbatim>\<open>uint32_t\<close> and \<^verbatim>\<open>int\<close> make the source do.\<close>

partial_function (option) hmap_idx_shift ::
  "'v hmap_hdr \<Rightarrow> u32 \<Rightarrow> u32 \<Rightarrow> ('v hmap_hdr \<times> u32) option" where
  "hmap_idx_shift hdr del i0 =
     (let i = hmap_mask hdr (i0 + 1); key = keys hdr ! unat i in
      if key = 0 then Some (hdr, i)
      else
        (case (if key = 0 then Some (hdr, -1) else hmap_idx_probe hdr key True key) of
           None \<Rightarrow> None
         | Some (hdr1, r) \<Rightarrow>
             (let key' = (word_of_int r :: u32) in
              if key' = i then hmap_idx_shift hdr1 del i
              else hmap_idx_shift
                     (hmap_memcpy_elem
                        (hdr1\<lparr>len := len hdr1 - 1, keys := (keys hdr1)[unat i := 0]\<rparr>)
                        ((key' + 1) * del) ((i + 1) * del) del)
                     del i)))"

declare hmap_idx_shift.simps [code]

text \<open>The \<^verbatim>\<open>for\<close> loop of \<^verbatim>\<open>hmap__idx\<close> with both flags. The parameter \<^verbatim>\<open>int del\<close> is
  kept as the 32-bit value that the offset arithmetic uses; it is 0 for no deletion and the
  element size for \<^verbatim>\<open>HMAP_DEL\<close>.\<close>

partial_function (option) hmap_idx_loop ::
  "'v hmap_hdr \<Rightarrow> u32 \<Rightarrow> bool \<Rightarrow> u32 \<Rightarrow> u32 \<Rightarrow> ('v hmap_hdr \<times> int) option" where
  "hmap_idx_loop hdr key add del i0 =
     (let i = hmap_mask hdr i0 in
      if keys hdr ! unat i = key then
        (if del \<noteq> 0 then
           (case hmap_idx_shift (hdr\<lparr>len := len hdr - 1, keys := (keys hdr)[unat i := 0]\<rparr>) del i of
              None \<Rightarrow> None
            | Some (hdr', i') \<Rightarrow> Some (hdr', uint i'))
         else Some (hdr, uint i))
      else if keys hdr ! unat i = 0 then
        (if add then Some (hdr\<lparr>len := len hdr + 1, keys := (keys hdr)[unat i := key]\<rparr>, uint i)
         else Some (hdr, -1))
      else hmap_idx_loop hdr key add del (i + 1))"

declare hmap_idx_loop.simps [code]

definition hmap__idx :: "'v hmap_hdr \<Rightarrow> u32 \<Rightarrow> bool \<Rightarrow> u32 \<Rightarrow> ('v hmap_hdr \<times> int) option" where
  "hmap__idx hdr key add del =
     (if key = 0 then Some (hdr, -1) else hmap_idx_loop hdr key add del key)"

subsection \<open>Growth\<close>

text \<open>The loop of \<^verbatim>\<open>hmap__grow\<close> that computes \<open>new_max\<close>; \<open>Inl Overflow\<close> is its
  \<^verbatim>\<open>return old_ptr; /* overflow */\<close>.\<close>

partial_function (option) hmap_grow_size :: "size_t \<Rightarrow> size_t \<Rightarrow> (grow_failure + size_t) option" where
  "hmap_grow_size new_max reserve =
     (if new_max \<noteq> 0 \<and> new_max div 2 \<le> reserve then
        (let new_max' = new_max * 2 + 1 in
         if new_max' = 0 then Some (Inl Overflow) else hmap_grow_size new_max' reserve)
      else Some (Inr new_max))"

declare hmap_grow_size.simps [code]

text \<open>The inner loop of the rehash: the first empty slot from \<open>j = key\<close> on takes the key
  and the value.\<close>

partial_function (option) hmap_grow_place ::
  "'v hmap_hdr \<Rightarrow> u32 \<Rightarrow> 'v \<Rightarrow> u32 \<Rightarrow> 'v hmap_hdr option" where
  "hmap_grow_place new_hdr key v j0 =
     (let j = hmap_mask new_hdr j0 in
      if keys new_hdr ! unat j = 0 then
        Some (new_hdr\<lparr>keys := (keys new_hdr)[unat j := key], vals := (vals new_hdr)[unat j := v]\<rparr>)
      else hmap_grow_place new_hdr key v (j + 1))"

declare hmap_grow_place.simps [code]

text \<open>The outer loop \<^verbatim>\<open>for (i = 0; i <= old_hdr->maxlen; i++)\<close>.\<close>

partial_function (option) hmap_grow_copy ::
  "'v hmap_hdr \<Rightarrow> 'v hmap_hdr \<Rightarrow> size_t \<Rightarrow> 'v hmap_hdr option" where
  "hmap_grow_copy old_hdr new_hdr i =
     (if i \<le> maxlen old_hdr then
        (if keys old_hdr ! unat i = 0 then hmap_grow_copy old_hdr new_hdr (i + 1)
         else
           (case hmap_grow_place new_hdr (keys old_hdr ! unat i) (vals old_hdr ! unat i)
                   (keys old_hdr ! unat i) of
              None \<Rightarrow> None
            | Some new_hdr' \<Rightarrow> hmap_grow_copy old_hdr new_hdr' (i + 1)))
      else Some new_hdr)"

declare hmap_grow_copy.simps [code]

text \<open>\<^verbatim>\<open>sizeof(struct hmap__hdr)\<close>: two \<^verbatim>\<open>size_t\<close> and a pointer.\<close>

definition sizeof_hdr :: size_t where
  "sizeof_hdr = 24"

text \<open>The freshly allocated table: \<^verbatim>\<open>calloc\<close> zeroes the keys, the value region is
  uninitialised. The field \<open>len\<close> is assigned at the end of \<^verbatim>\<open>hmap__grow\<close> and never
  read before.\<close>

definition hmap_new_hdr :: "'v alloc \<Rightarrow> size_t \<Rightarrow> 'v hmap_hdr" where
  "hmap_new_hdr al new_max =
     \<lparr>len = 0, maxlen = new_max, keys = replicate (unat (new_max + 1)) 0,
      nullval = fresh al 0, vals = map (\<lambda>i. fresh al (Suc i)) [0..<unat (new_max + 1)]\<rparr>"

text \<open>\<^verbatim>\<open>hmap__grow\<close> up to its return: either the reason for returning \<open>old_ptr\<close> or the
  new header.\<close>

definition hmap_grow_new ::
  "'v alloc \<Rightarrow> 'v hmap_hdr option \<Rightarrow> size_t \<Rightarrow> size_t \<Rightarrow> (grow_failure + 'v hmap_hdr) option" where
  "hmap_grow_new al old_ptr elem_size reserve =
     (case hmap_grow_size (case old_ptr of Some old_hdr \<Rightarrow> maxlen old_hdr * 2 + 1 | None \<Rightarrow> 15) reserve of
        None \<Rightarrow> None
      | Some (Inl e) \<Rightarrow> Some (Inl e)
      | Some (Inr new_max) \<Rightarrow>
          if \<not> malloc_ok al (sizeof_hdr + (new_max + 2) * elem_size) then Some (Inl OutOfMemory)
          else if \<not> calloc_ok al (new_max + 1) 4 then Some (Inl OutOfMemory)
          else
            (case old_ptr of
               Some old_hdr \<Rightarrow>
                 (case hmap_grow_copy old_hdr (hmap_new_hdr al new_max) 0 of
                    None \<Rightarrow> None
                  | Some new_hdr \<Rightarrow>
                      Some (Inr (new_hdr\<lparr>nullval := nullval old_hdr, len := len old_hdr\<rparr>)))
             | None \<Rightarrow>
                 Some (Inr ((hmap_new_hdr al new_max)\<lparr>nullval := zeroed al, len := 0\<rparr>))))"

definition hmap__grow ::
  "'v alloc \<Rightarrow> 'v hmap_hdr option \<Rightarrow> size_t \<Rightarrow> size_t \<Rightarrow> 'v hmap_hdr option option" where
  "hmap__grow al old_ptr elem_size reserve =
     (case hmap_grow_new al old_ptr elem_size reserve of
        None \<Rightarrow> None
      | Some (Inl e) \<Rightarrow> Some old_ptr
      | Some (Inr new_hdr) \<Rightarrow> Some (Some new_hdr))"

subsection \<open>The macros\<close>

text \<open>Every macro takes the allocator and \<^verbatim>\<open>sizeof(*(b))\<close>, and returns the handle as the
  macro leaves it. \<open>None\<close> stands for a call that does not return.\<close>

definition HMAP__FIT1 :: "'v alloc \<Rightarrow> size_t \<Rightarrow> 'v hmap_hdr option \<Rightarrow> 'v hmap_hdr option option" where
  "HMAP__FIT1 al es b =
     (if b \<noteq> None \<and> HMAP_LEN b * 2 \<le> HMAP_MAX b then Some b else hmap__grow al b es 0)"

definition HMAP_FIT ::
  "'v alloc \<Rightarrow> size_t \<Rightarrow> 'v hmap_hdr option \<Rightarrow> size_t \<Rightarrow> 'v hmap_hdr option option" where
  "HMAP_FIT al es b n =
     (if n = 0 \<or> (b \<noteq> None \<and> n * 2 \<le> HMAP_MAX b) then Some b else hmap__grow al b es n)"

definition HMAP_TRYFIT ::
  "'v alloc \<Rightarrow> size_t \<Rightarrow> 'v hmap_hdr option \<Rightarrow> size_t \<Rightarrow> ('v hmap_hdr option \<times> bool) option" where
  "HMAP_TRYFIT al es b n =
     (case HMAP_FIT al es b n of
        None \<Rightarrow> None
      | Some b' \<Rightarrow> Some (b', n = 0 \<or> (b' \<noteq> None \<and> n * 2 \<le> HMAP_MAX b')))"

definition HMAP_SETNULLVAL ::
  "'v alloc \<Rightarrow> size_t \<Rightarrow> 'v hmap_hdr option \<Rightarrow> 'v \<Rightarrow> (error + 'v hmap_hdr option) option" where
  "HMAP_SETNULLVAL al es b v =
     (case HMAP__FIT1 al es b of
        None \<Rightarrow> None
      | Some None \<Rightarrow> Some (Inl NullDeref)
      | Some (Some h) \<Rightarrow> Some (Inr (Some (hmap_store h (-1) v))))"

definition HMAP_SET ::
  "'v alloc \<Rightarrow> size_t \<Rightarrow> 'v hmap_hdr option \<Rightarrow> u32 \<Rightarrow> 'v \<Rightarrow> (error + 'v hmap_hdr option) option" where
  "HMAP_SET al es b key v =
     (case HMAP__FIT1 al es b of
        None \<Rightarrow> None
      | Some None \<Rightarrow> Some (Inl NullDeref)
      | Some (Some h) \<Rightarrow>
          (case hmap__idx h key True 0 of
             None \<Rightarrow> None
           | Some (h', r) \<Rightarrow> Some (Inr (Some (hmap_store h' r v)))))"

definition HMAP_GET ::
  "'v alloc \<Rightarrow> size_t \<Rightarrow> 'v hmap_hdr option \<Rightarrow> u32 \<Rightarrow> (error + 'v hmap_hdr option \<times> 'v) option" where
  "HMAP_GET al es b key =
     (case HMAP__FIT1 al es b of
        None \<Rightarrow> None
      | Some None \<Rightarrow> Some (Inl NullDeref)
      | Some (Some h) \<Rightarrow>
          (case hmap__idx h key False 0 of
             None \<Rightarrow> None
           | Some (h', r) \<Rightarrow> Some (Inr (Some h', hmap_at h' r))))"

definition HMAP_HAS :: "'v hmap_hdr option \<Rightarrow> u32 \<Rightarrow> ('v hmap_hdr option \<times> bool) option" where
  "HMAP_HAS b key =
     (case b of
        None \<Rightarrow> Some (None, False)
      | Some h \<Rightarrow>
          (case hmap__idx h key False 0 of
             None \<Rightarrow> None
           | Some (h', r) \<Rightarrow> Some (Some h', r \<noteq> -1)))"

text \<open>\<^verbatim>\<open>HMAP_DEL\<close> passes \<^verbatim>\<open>sizeof(*(b))\<close> for \<^verbatim>\<open>int del\<close>.\<close>

definition HMAP_DEL ::
  "size_t \<Rightarrow> 'v hmap_hdr option \<Rightarrow> u32 \<Rightarrow> ('v hmap_hdr option \<times> bool) option" where
  "HMAP_DEL es b key =
     (case b of
        None \<Rightarrow> Some (None, False)
      | Some h \<Rightarrow>
          (case hmap__idx h key False (ucast es) of
             None \<Rightarrow> None
           | Some (h', r) \<Rightarrow> Some (Some h', r \<noteq> -1)))"

definition HMAP_IDX :: "'v hmap_hdr option \<Rightarrow> u32 \<Rightarrow> ('v hmap_hdr option \<times> int) option" where
  "HMAP_IDX b key =
     (case b of
        None \<Rightarrow> Some (None, -1)
      | Some h \<Rightarrow>
          (case hmap__idx h key False 0 of
             None \<Rightarrow> None
           | Some (h', r) \<Rightarrow> Some (Some h', r)))"

definition HMAP_CLEAR :: "'v hmap_hdr option \<Rightarrow> 'v hmap_hdr option" where
  "HMAP_CLEAR b =
     (case b of
        None \<Rightarrow> None
      | Some h \<Rightarrow> Some (h\<lparr>keys := replicate (unat (HMAP_CAP b)) 0 @ drop (unat (HMAP_CAP b)) (keys h),
                         len := 0\<rparr>))"

section \<open>The 64-bit map\<close>

text \<open>\<^verbatim>\<open>struct hmap64__hdr { size_t len, cap; uint64_t *keys; }\<close> and the value region.\<close>

record 'v hmap64_hdr =
  len64 :: size_t
  cap :: size_t
  keys64 :: "u64 list"
  nullval64 :: 'v
  vals64 :: "'v list"

definition HMAP64_LEN :: "'v hmap64_hdr option \<Rightarrow> size_t" where
  "HMAP64_LEN b = (case b of Some h \<Rightarrow> len64 h | None \<Rightarrow> 0)"

definition HMAP64_CAP :: "'v hmap64_hdr option \<Rightarrow> size_t" where
  "HMAP64_CAP b = (case b of Some h \<Rightarrow> cap h | None \<Rightarrow> 0)"

text \<open>The \<^verbatim>\<open>for (i = key;; i++)\<close> loop of \<^verbatim>\<open>hmap64__idx\<close>.\<close>

partial_function (option) hmap64_idx_loop ::
  "'v hmap64_hdr \<Rightarrow> u64 \<Rightarrow> bool \<Rightarrow> bool \<Rightarrow> u64 \<Rightarrow> ('v hmap64_hdr \<times> int) option" where
  "hmap64_idx_loop hdr key add del i0 =
     (let i = i0 AND (cap hdr - 1) in
      if keys64 hdr ! unat i = key then
        (if del then Some (hdr\<lparr>len64 := len64 hdr - 1, keys64 := (keys64 hdr)[unat i := 0]\<rparr>, uint i)
         else Some (hdr, uint i))
      else if keys64 hdr ! unat i = 0 then
        (if add then Some (hdr\<lparr>len64 := len64 hdr + 1, keys64 := (keys64 hdr)[unat i := key]\<rparr>, uint i)
         else Some (hdr, -1))
      else hmap64_idx_loop hdr key add del (i + 1))"

declare hmap64_idx_loop.simps [code]

definition hmap64__idx ::
  "'v hmap64_hdr \<Rightarrow> u64 \<Rightarrow> bool \<Rightarrow> bool \<Rightarrow> ('v hmap64_hdr \<times> int) option" where
  "hmap64__idx hdr key add del =
     (if key = 0 then Some (hdr, -1) else hmap64_idx_loop hdr key add del key)"

subsection \<open>Growth\<close>

partial_function (option) hmap64_grow_size :: "size_t \<Rightarrow> size_t \<Rightarrow> (grow_failure + size_t) option" where
  "hmap64_grow_size new_cap res =
     (if new_cap \<noteq> 0 \<and> new_cap div 2 < res then
        (let new_cap' = new_cap * 2 in
         if new_cap' = 0 then Some (Inl Overflow) else hmap64_grow_size new_cap' res)
      else Some (Inr new_cap))"

declare hmap64_grow_size.simps [code]

partial_function (option) hmap64_grow_place ::
  "'v hmap64_hdr \<Rightarrow> u64 \<Rightarrow> 'v \<Rightarrow> u64 \<Rightarrow> 'v hmap64_hdr option" where
  "hmap64_grow_place new_hdr key v j0 =
     (let j = j0 AND (cap new_hdr - 1) in
      if keys64 new_hdr ! unat j = 0 then
        Some (new_hdr\<lparr>keys64 := (keys64 new_hdr)[unat j := key],
                      vals64 := (vals64 new_hdr)[unat j := v]\<rparr>)
      else hmap64_grow_place new_hdr key v (j + 1))"

declare hmap64_grow_place.simps [code]

text \<open>The outer loop \<^verbatim>\<open>for (i = 0; i < old_hdr->cap; i++)\<close>.\<close>

partial_function (option) hmap64_grow_copy ::
  "'v hmap64_hdr \<Rightarrow> 'v hmap64_hdr \<Rightarrow> size_t \<Rightarrow> 'v hmap64_hdr option" where
  "hmap64_grow_copy old_hdr new_hdr i =
     (if i < cap old_hdr then
        (if keys64 old_hdr ! unat i = 0 then hmap64_grow_copy old_hdr new_hdr (i + 1)
         else
           (case hmap64_grow_place new_hdr (keys64 old_hdr ! unat i) (vals64 old_hdr ! unat i)
                   (keys64 old_hdr ! unat i) of
              None \<Rightarrow> None
            | Some new_hdr' \<Rightarrow> hmap64_grow_copy old_hdr new_hdr' (i + 1)))
      else Some new_hdr)"

declare hmap64_grow_copy.simps [code]

definition hmap64_new_hdr :: "'v alloc \<Rightarrow> size_t \<Rightarrow> 'v hmap64_hdr" where
  "hmap64_new_hdr al new_cap =
     \<lparr>len64 = 0, cap = new_cap, keys64 = replicate (unat new_cap) 0,
      nullval64 = fresh al 0, vals64 = map (\<lambda>i. fresh al (Suc i)) [0..<unat new_cap]\<rparr>"

definition hmap64_grow_new ::
  "'v alloc \<Rightarrow> 'v hmap64_hdr option \<Rightarrow> size_t \<Rightarrow> size_t \<Rightarrow> (grow_failure + 'v hmap64_hdr) option" where
  "hmap64_grow_new al old_ptr elem_size res =
     (case hmap64_grow_size (case old_ptr of Some old_hdr \<Rightarrow> cap old_hdr * 2 | None \<Rightarrow> 16) res of
        None \<Rightarrow> None
      | Some (Inl e) \<Rightarrow> Some (Inl e)
      | Some (Inr new_cap) \<Rightarrow>
          if \<not> malloc_ok al (sizeof_hdr + (new_cap + 1) * elem_size) then Some (Inl OutOfMemory)
          else if \<not> calloc_ok al new_cap 8 then Some (Inl OutOfMemory)
          else
            (case old_ptr of
               Some old_hdr \<Rightarrow>
                 (case hmap64_grow_copy old_hdr (hmap64_new_hdr al new_cap) 0 of
                    None \<Rightarrow> None
                  | Some new_hdr \<Rightarrow>
                      Some (Inr (new_hdr\<lparr>nullval64 := nullval64 old_hdr, len64 := len64 old_hdr\<rparr>)))
             | None \<Rightarrow>
                 Some (Inr ((hmap64_new_hdr al new_cap)\<lparr>nullval64 := zeroed al, len64 := 0\<rparr>))))"

definition hmap64__grow ::
  "'v alloc \<Rightarrow> 'v hmap64_hdr option \<Rightarrow> size_t \<Rightarrow> size_t \<Rightarrow> 'v hmap64_hdr option option" where
  "hmap64__grow al old_ptr elem_size res =
     (case hmap64_grow_new al old_ptr elem_size res of
        None \<Rightarrow> None
      | Some (Inl e) \<Rightarrow> Some old_ptr
      | Some (Inr new_hdr) \<Rightarrow> Some (Some new_hdr))"

subsection \<open>The macros\<close>

definition HMAP64__FIT1 ::
  "'v alloc \<Rightarrow> size_t \<Rightarrow> 'v hmap64_hdr option \<Rightarrow> 'v hmap64_hdr option option" where
  "HMAP64__FIT1 al es b =
     (if b \<noteq> None \<and> HMAP64_LEN b * 2 < HMAP64_CAP b then Some b else hmap64__grow al b es 0)"

definition HMAP64_FIT ::
  "'v alloc \<Rightarrow> size_t \<Rightarrow> 'v hmap64_hdr option \<Rightarrow> size_t \<Rightarrow> 'v hmap64_hdr option option" where
  "HMAP64_FIT al es b n =
     (if n = 0 \<or> (b \<noteq> None \<and> n * 2 < HMAP64_CAP b) then Some b else hmap64__grow al b es n)"

definition HMAP64_TRYFIT ::
  "'v alloc \<Rightarrow> size_t \<Rightarrow> 'v hmap64_hdr option \<Rightarrow> size_t \<Rightarrow> ('v hmap64_hdr option \<times> bool) option" where
  "HMAP64_TRYFIT al es b n =
     (case HMAP64_FIT al es b n of
        None \<Rightarrow> None
      | Some b' \<Rightarrow> Some (b', n = 0 \<or> (b' \<noteq> None \<and> n * 2 < HMAP64_CAP b')))"

definition hmap64_at :: "'v hmap64_hdr \<Rightarrow> int \<Rightarrow> 'v" where
  "hmap64_at h r = (if r = -1 then nullval64 h else vals64 h ! nat r)"

definition hmap64_store :: "'v hmap64_hdr \<Rightarrow> int \<Rightarrow> 'v \<Rightarrow> 'v hmap64_hdr" where
  "hmap64_store h r v =
     (if r = -1 then h\<lparr>nullval64 := v\<rparr> else h\<lparr>vals64 := (vals64 h)[nat r := v]\<rparr>)"

definition HMAP64_SETNULLVAL ::
  "'v alloc \<Rightarrow> size_t \<Rightarrow> 'v hmap64_hdr option \<Rightarrow> 'v \<Rightarrow> (error + 'v hmap64_hdr option) option" where
  "HMAP64_SETNULLVAL al es b v =
     (case HMAP64__FIT1 al es b of
        None \<Rightarrow> None
      | Some None \<Rightarrow> Some (Inl NullDeref)
      | Some (Some h) \<Rightarrow> Some (Inr (Some (hmap64_store h (-1) v))))"

definition HMAP64_SET ::
  "'v alloc \<Rightarrow> size_t \<Rightarrow> 'v hmap64_hdr option \<Rightarrow> u64 \<Rightarrow> 'v \<Rightarrow> (error + 'v hmap64_hdr option) option" where
  "HMAP64_SET al es b key v =
     (case HMAP64__FIT1 al es b of
        None \<Rightarrow> None
      | Some None \<Rightarrow> Some (Inl NullDeref)
      | Some (Some h) \<Rightarrow>
          (case hmap64__idx h key True False of
             None \<Rightarrow> None
           | Some (h', r) \<Rightarrow> Some (Inr (Some (hmap64_store h' r v)))))"

definition HMAP64_GET ::
  "'v alloc \<Rightarrow> size_t \<Rightarrow> 'v hmap64_hdr option \<Rightarrow> u64 \<Rightarrow> (error + 'v hmap64_hdr option \<times> 'v) option" where
  "HMAP64_GET al es b key =
     (case HMAP64__FIT1 al es b of
        None \<Rightarrow> None
      | Some None \<Rightarrow> Some (Inl NullDeref)
      | Some (Some h) \<Rightarrow>
          (case hmap64__idx h key False False of
             None \<Rightarrow> None
           | Some (h', r) \<Rightarrow> Some (Inr (Some h', hmap64_at h' r))))"

definition HMAP64_HAS :: "'v hmap64_hdr option \<Rightarrow> u64 \<Rightarrow> ('v hmap64_hdr option \<times> bool) option" where
  "HMAP64_HAS b key =
     (case b of
        None \<Rightarrow> Some (None, False)
      | Some h \<Rightarrow>
          (case hmap64__idx h key False False of
             None \<Rightarrow> None
           | Some (h', r) \<Rightarrow> Some (Some h', r \<noteq> -1)))"

definition HMAP64_DEL :: "'v hmap64_hdr option \<Rightarrow> u64 \<Rightarrow> ('v hmap64_hdr option \<times> bool) option" where
  "HMAP64_DEL b key =
     (case b of
        None \<Rightarrow> Some (None, False)
      | Some h \<Rightarrow>
          (case hmap64__idx h key False True of
             None \<Rightarrow> None
           | Some (h', r) \<Rightarrow> Some (Some h', r \<noteq> -1)))"

definition HMAP64_IDX :: "'v hmap64_hdr option \<Rightarrow> u64 \<Rightarrow> ('v hmap64_hdr option \<times> int) option" where
  "HMAP64_IDX b key =
     (case b of
        None \<Rightarrow> Some (None, -1)
      | Some h \<Rightarrow>
          (case hmap64__idx h key False False of
             None \<Rightarrow> None
           | Some (h', r) \<Rightarrow> Some (Some h', r)))"

section \<open>Sequences of operations\<close>

text \<open>A caller holds a handle, initially \<^verbatim>\<open>NULL\<close>, and applies \<^verbatim>\<open>set\<close> and \<^verbatim>\<open>del\<close> to it,
  as the test program does. Every step comes with the behaviour of the allocator at that
  time. A step that does not return, or that dereferences \<^verbatim>\<open>NULL\<close>, ends the run.\<close>

datatype 'v hmap_op = HSet u32 'v | HDel u32

datatype 'v hmap64_op = HSet64 u64 'v | HDel64 u64


fun hmap64_run ::
  "size_t \<Rightarrow> 'v hmap64_hdr option \<Rightarrow> ('v alloc \<times> 'v hmap64_op) list \<Rightarrow>
   (error + 'v hmap64_hdr option) option" where
  "hmap64_run es b [] = Some (Inr b)"
| "hmap64_run es b ((al, HSet64 k v) # ops) =
     (case HMAP64_SET al es b k v of
        None \<Rightarrow> None
      | Some (Inl e) \<Rightarrow> Some (Inl e)
      | Some (Inr b') \<Rightarrow> hmap64_run es b' ops)"
| "hmap64_run es b ((al, HDel64 k) # ops) =
     (case HMAP64_DEL b k of
        None \<Rightarrow> None
      | Some (b', r) \<Rightarrow> hmap64_run es b' ops)"

text \<open>The runs in which no growth fails: the load-factor check in front of every insert ends
  with a table that has room (\<open>len * 2 \<le> maxlen\<close>, in the 64-bit map \<open>len * 2 < cap\<close>), and
  every step returns.\<close>

fun hmap_grows_ok :: "size_t \<Rightarrow> 'v hmap_hdr option \<Rightarrow> ('v alloc \<times> 'v hmap_op) list \<Rightarrow> bool" where
  "hmap_grows_ok es b [] = True"
| "hmap_grows_ok es b ((al, HSet k v) # ops) =
     ((case HMAP__FIT1 al es b of
         Some (Some h) \<Rightarrow> len h * 2 \<le> maxlen h
       | _ \<Rightarrow> False) \<and>
      (case HMAP_SET al es b k v of
         Some (Inr b') \<Rightarrow> hmap_grows_ok es b' ops
       | _ \<Rightarrow> False))"
| "hmap_grows_ok es b ((al, HDel k) # ops) =
     (case HMAP_DEL es b k of
        Some (b', r) \<Rightarrow> hmap_grows_ok es b' ops
      | None \<Rightarrow> False)"

fun hmap64_grows_ok :: "size_t \<Rightarrow> 'v hmap64_hdr option \<Rightarrow> ('v alloc \<times> 'v hmap64_op) list \<Rightarrow> bool" where
  "hmap64_grows_ok es b [] = True"
| "hmap64_grows_ok es b ((al, HSet64 k v) # ops) =
     ((case HMAP64__FIT1 al es b of
         Some (Some h) \<Rightarrow> len64 h * 2 < cap h
       | _ \<Rightarrow> False) \<and>
      (case HMAP64_SET al es b k v of
         Some (Inr b') \<Rightarrow> hmap64_grows_ok es b' ops
       | _ \<Rightarrow> False))"
| "hmap64_grows_ok es b ((al, HDel64 k) # ops) =
     (case HMAP64_DEL b k of
        Some (b', r) \<Rightarrow> hmap64_grows_ok es b' ops
      | None \<Rightarrow> False)"

section \<open>Allocators and tables used in examples\<close>

text \<open>An allocator that always succeeds, one that never does, and one that refuses every
  request above a mebibyte. Uninitialised memory shows the value 221.\<close>

definition alloc_ok :: "int alloc" where
  "alloc_ok = \<lparr>malloc_ok = (\<lambda>n. True), calloc_ok = (\<lambda>n s. True), fresh = (\<lambda>i. 221), zeroed = 0\<rparr>"

definition alloc_fail :: "int alloc" where
  "alloc_fail = \<lparr>malloc_ok = (\<lambda>n. False), calloc_ok = (\<lambda>n s. False), fresh = (\<lambda>i. 221), zeroed = 0\<rparr>"

definition alloc_small :: "int alloc" where
  "alloc_small = \<lparr>malloc_ok = (\<lambda>n. n \<le> 1048576), calloc_ok = (\<lambda>n s. n \<le> 262144 \<and> s \<le> 8),
                   fresh = (\<lambda>i. 221), zeroed = 0\<rparr>"

text \<open>A 32-bit table of 16 slots that holds key 17 with value 5 in slot 1, and the 64-bit
  table of 16 slots with the same content.\<close>

definition hmap_one :: "int hmap_hdr" where
  "hmap_one = \<lparr>len = 1, maxlen = 15, keys = [0, 17, 0, 0, 0, 0, 0, 0, 0, 0, 0, 0, 0, 0, 0, 0],
               nullval = 0, vals = [221, 5, 221, 221, 221, 221, 221, 221, 221, 221, 221, 221, 221, 221, 221, 221]\<rparr>"

definition hmap64_one :: "int hmap64_hdr" where
  "hmap64_one = \<lparr>len64 = 1, cap = 16, keys64 = [0, 17, 0, 0, 0, 0, 0, 0, 0, 0, 0, 0, 0, 0, 0, 0],
               nullval64 = 0, vals64 = [221, 5, 221, 221, 221, 221, 221, 221, 221, 221, 221, 221, 221, 221, 221, 221]\<rparr>"


definition ops64_eight :: "(int alloc \<times> int hmap64_op) list" where
  "ops64_eight = map (\<lambda>k. (alloc_ok, HSet64 k 1)) [17, 18, 19, 20, 21, 22, 23, 24]"

definition hmap_eight :: "int hmap_hdr" where
  "hmap_eight = \<lparr>len = 8, maxlen = 15, keys = [0, 17, 18, 19, 20, 21, 22, 23, 24, 0, 0, 0, 0, 0, 0, 0],
      nullval = 0, vals = [221, 1, 1, 1, 1, 1, 1, 1, 1, 221, 221, 221, 221, 221, 221, 221]\<rparr>"

definition hmap64_eight :: "int hmap64_hdr" where
  "hmap64_eight = \<lparr>len64 = 8, cap = 16, keys64 = [0, 17, 18, 19, 20, 21, 22, 23, 24, 0, 0, 0, 0, 0, 0, 0],
      nullval64 = 0, vals64 = [221, 1, 1, 1, 1, 1, 1, 1, 1, 221, 221, 221, 221, 221, 221, 221]\<rparr>"

text \<open>A run of the 64-bit map that leaves key 31 in two slots: key 31 is displaced behind
  key 15, key 15 is deleted, and key 31 is set again.\<close>

definition ops64_stale :: "(int alloc \<times> int hmap64_op) list" where
  "ops64_stale =
     map (Pair alloc_ok)
       [HSet64 15 100, HSet64 31 200, HSet64 2 2, HSet64 3 3, HSet64 4 4, HSet64 5 5, HSet64 6 6,
        HSet64 7 7, HDel64 15]"

definition hmap64_stale :: "int hmap64_hdr" where
  "hmap64_stale = \<lparr>len64 = 7, cap = 16, keys64 = [31, 0, 2, 3, 4, 5, 6, 7, 0, 0, 0, 0, 0, 0, 0, 0],
      nullval64 = 0,
      vals64 = [200, 221, 2, 3, 4, 5, 6, 7, 221, 221, 221, 221, 221, 221, 221, 100]\<rparr>"

definition hmap64_stale_set :: "int hmap64_hdr" where
  "hmap64_stale_set = \<lparr>len64 = 8, cap = 16, keys64 = [31, 0, 2, 3, 4, 5, 6, 7, 0, 0, 0, 0, 0, 0, 0, 31],
      nullval64 = 0,
      vals64 = [200, 221, 2, 3, 4, 5, 6, 7, 221, 221, 221, 221, 221, 221, 221, 300]\<rparr>"

definition hmap64_stale_grown :: "int hmap64_hdr" where
  "hmap64_stale_grown = \<lparr>len64 = 8, cap = 32,
      keys64 = [31, 0, 2, 3, 4, 5, 6, 7, 0, 0, 0, 0, 0, 0, 0, 0,
                0, 0, 0, 0, 0, 0, 0, 0, 0, 0, 0, 0, 0, 0, 0, 31],
      nullval64 = 0,
      vals64 = [300, 221, 2, 3, 4, 5, 6, 7, 221, 221, 221, 221, 221, 221, 221, 221,
                221, 221, 221, 221, 221, 221, 221, 221, 221, 221, 221, 221, 221, 221, 221, 200]\<rparr>"

definition hmap_eight_grown :: "int hmap_hdr" where
  "hmap_eight_grown = \<lparr>len = 8, maxlen = 31,
      keys = [0, 0, 0, 0, 0, 0, 0, 0, 0, 0, 0, 0, 0, 0, 0, 0,
              0, 17, 18, 19, 20, 21, 22, 23, 24, 0, 0, 0, 0, 0, 0, 0],
      nullval = 7,
      vals = [221, 221, 221, 221, 221, 221, 221, 221, 221, 221, 221, 221, 221, 221, 221, 221,
              221, 1, 1, 1, 1, 1, 1, 1, 1, 221, 221, 221, 221, 221, 221, 221]\<rparr>"





section \<open>Invariants of the tables\<close>

subsection \<open>Linear probing on a list of keys\<close>

text \<open>A table of keys is probed cyclically over its first \<open>P\<close> slots, starting at the home
  slot of the key. Key 0 marks an empty slot.\<close>

definition oa_home :: "nat \<Rightarrow> u32 \<Rightarrow> nat" where
  "oa_home P k = unat k mod P"

text \<open>The number of steps from slot \<open>a\<close> forward to slot \<open>b\<close>.\<close>

definition oa_dist :: "nat \<Rightarrow> nat \<Rightarrow> nat \<Rightarrow> nat" where
  "oa_dist P a b = (b + P - a mod P) mod P"

text \<open>The \<open>n\<close> slots from slot \<open>s\<close> on hold keys other than \<open>key\<close>: a probe for \<open>key\<close>
  that starts at \<open>s\<close> passes them.\<close>

definition oa_run :: "nat \<Rightarrow> 'a::zero list \<Rightarrow> 'a \<Rightarrow> nat \<Rightarrow> nat \<Rightarrow> bool" where
  "oa_run P T key s n = (\<forall>d\<in>{..<n}. T ! ((s + d) mod P) \<noteq> key \<and> T ! ((s + d) mod P) \<noteq> 0)"

text \<open>The probe chain of the key in slot \<open>j\<close> is unbroken: every slot from the home slot of
  the key up to \<open>j\<close> is occupied, the slots in \<open>holes\<close> excepted.\<close>

definition oa_chain :: "nat \<Rightarrow> u32 list \<Rightarrow> nat set \<Rightarrow> nat \<Rightarrow> bool" where
  "oa_chain P T holes j =
     (\<forall>d\<in>{..<oa_dist P (oa_home P (T ! j)) j}.
        (oa_home P (T ! j) + d) mod P \<in> holes \<or> T ! ((oa_home P (T ! j) + d) mod P) \<noteq> 0)"

text \<open>No key is stored twice.\<close>

definition oa_distinct :: "u32 list \<Rightarrow> bool" where
  "oa_distinct T =
     (\<forall>i\<in>{..<length T}. \<forall>j\<in>{..<length T}. T ! i \<noteq> 0 \<and> T ! i = T ! j \<longrightarrow> i = j)"

text \<open>Every key lies in the probed part of the table at the end of a chain that is unbroken
  but for the slots in \<open>holes\<close>.\<close>

definition oa_chains :: "nat \<Rightarrow> u32 list \<Rightarrow> nat set \<Rightarrow> bool" where
  "oa_chains P T holes = (\<forall>j\<in>{..<length T}. T ! j \<noteq> 0 \<longrightarrow> j < P \<and> oa_chain P T holes j)"

text \<open>The state of a table while a deletion scans the run behind the slot it cleared: slot
  \<open>hole\<close> is empty, every chain is unbroken but for \<open>hole\<close>, and the slots behind \<open>hole\<close>
  up to \<open>i\<close>, which the scan has passed, are occupied by keys whose chains are unbroken.\<close>

definition oa_scan_inv :: "nat \<Rightarrow> u32 list \<Rightarrow> nat \<Rightarrow> nat \<Rightarrow> bool" where
  "oa_scan_inv P T hole i =
     (hole < P \<and> i < P \<and> T ! hole = 0 \<and> oa_distinct T \<and> oa_chains P T {hole} \<and>
      (\<forall>d\<in>{1..oa_dist P hole i}.
         T ! ((hole + d) mod P) \<noteq> 0 \<and> oa_chain P T {} ((hole + d) mod P)))"

text \<open>The number of occupied slots, and the sum of the distances of the keys from their home
  slots.\<close>

definition oa_count :: "'a::zero list \<Rightarrow> nat" where
  "oa_count T = card {j\<in>{..<length T}. T ! j \<noteq> 0}"

definition oa_disp :: "nat \<Rightarrow> u32 list \<Rightarrow> nat" where
  "oa_disp P T = (\<Sum>j\<in>{..<P}. if T ! j = 0 then 0 else oa_dist P (oa_home P (T ! j)) j)"

subsection \<open>The 32-bit map\<close>

text \<open>The slots that a 32-bit index masked by \<open>maxlen\<close> can reach.\<close>

definition hmap_slots :: "'v hmap_hdr \<Rightarrow> nat" where
  "hmap_slots h = min (unat (maxlen h) + 1) (2 ^ 32)"

text \<open>The shape of a header as \<^verbatim>\<open>hmap__grow\<close> builds it: \<open>maxlen\<close> is \<open>2^m - 1\<close>, both arrays
  have \<open>maxlen + 1\<close> slots, and \<open>len\<close> counts the occupied slots. The key array of
  \<open>4 * 2^m\<close> bytes lies in an address space of \<open>2^64\<close> bytes, so \<open>m < 62\<close>.\<close>

definition hmap_wf :: "'v hmap_hdr \<Rightarrow> bool" where
  "hmap_wf h =
     ((\<exists>m\<in>{4..<62}. maxlen h = mask m) \<and>
      length (keys h) = unat (maxlen h) + 1 \<and>
      length (vals h) = unat (maxlen h) + 1 \<and>
      unat (len h) = oa_count (keys h))"

definition hmap_inv :: "'v hmap_hdr \<Rightarrow> bool" where
  "hmap_inv h =
     (hmap_wf h \<and> oa_distinct (keys h) \<and> oa_chains (hmap_slots h) (keys h) {})"

text \<open>The key and value pairs that a table holds.\<close>

definition hmap_pairs :: "'v hmap_hdr \<Rightarrow> (u32 \<times> 'v) set" where
  "hmap_pairs h = {kv \<in> set (zip (keys h) (vals h)). fst kv \<noteq> 0}"

subsection \<open>The 64-bit map\<close>

text \<open>The shape of a header as \<^verbatim>\<open>hmap64__grow\<close> builds it: \<open>cap\<close> is \<open>2^m\<close>, both arrays have
  \<open>cap\<close> slots, and \<open>len\<close> counts the occupied slots. The key array of \<open>8 * 2^m\<close> bytes lies
  in an address space of \<open>2^64\<close> bytes, so \<open>m < 61\<close>.\<close>

definition hmap64_wf :: "'v hmap64_hdr \<Rightarrow> bool" where
  "hmap64_wf h =
     ((\<exists>m\<in>{4..<61}. cap h = 2 ^ m) \<and>
      length (keys64 h) = unat (cap h) \<and>
      length (vals64 h) = unat (cap h) \<and>
      unat (len64 h) = oa_count (keys64 h))"

definition hmap64_pairs :: "'v hmap64_hdr \<Rightarrow> (u64 \<times> 'v) set" where
  "hmap64_pairs h = {kv \<in> set (zip (keys64 h) (vals64 h)). fst kv \<noteq> 0}"

section \<open>Verification\<close>

subsection \<open>Lookups that neither add nor delete\<close>


lemma hmap64_idx_loop_frame:
  assumes "hmap64_idx_loop hdr key add del i0 = Some res"
  shows "\<not> add \<longrightarrow> \<not> del \<longrightarrow> fst res = hdr"
  by (rule hmap64_idx_loop.raw_induct[where P = "\<lambda>hdr key add del i0 res.
         \<not> add \<longrightarrow> \<not> del \<longrightarrow> fst res = hdr", OF _ assms])
     (auto simp: Let_def split: if_splits)

lemma hmap_idx_loop_frame:
  assumes "hmap_idx_loop hdr key add del i0 = Some res"
  shows "\<not> add \<longrightarrow> del = 0 \<longrightarrow> fst res = hdr"
  by (rule hmap_idx_loop.raw_induct[where P = "\<lambda>hdr key add del i0 res.
         \<not> add \<longrightarrow> del = 0 \<longrightarrow> fst res = hdr", OF _ assms])
     (auto simp: Let_def split: if_splits)

lemma hmap64__idx_frame: "hmap64__idx h k False False = Some (h', r) \<Longrightarrow> h' = h"
  using hmap64_idx_loop_frame[of h k False False k "(h', r)"]
  by (auto simp: hmap64__idx_def split: if_splits)

lemma hmap__idx_frame: "hmap__idx h k False 0 = Some (h', r) \<Longrightarrow> h' = h"
  using hmap_idx_loop_frame[of h k False 0 k "(h', r)"]
  by (auto simp: hmap__idx_def split: if_splits)




subsection \<open>Growth keeps the header fields; key 0\<close>

lemma hmap_grow_place_frame:
  assumes "hmap_grow_place new_hdr key v j0 = Some res"
  shows "nullval res = nullval new_hdr \<and> maxlen res = maxlen new_hdr \<and> len res = len new_hdr \<and>
         length (keys res) = length (keys new_hdr) \<and> length (vals res) = length (vals new_hdr)"
  by (rule hmap_grow_place.raw_induct[where P = "\<lambda>new_hdr key v j0 res.
        nullval res = nullval new_hdr \<and> maxlen res = maxlen new_hdr \<and> len res = len new_hdr \<and>
        length (keys res) = length (keys new_hdr) \<and> length (vals res) = length (vals new_hdr)",
        OF _ assms])
     (auto simp: Let_def split: if_splits)

lemma hmap_grow_copy_frame:
  assumes "hmap_grow_copy old_hdr new_hdr i = Some res"
  shows "nullval res = nullval new_hdr \<and> maxlen res = maxlen new_hdr \<and> len res = len new_hdr \<and>
         length (keys res) = length (keys new_hdr) \<and> length (vals res) = length (vals new_hdr)"
  by (rule hmap_grow_copy.raw_induct[where P = "\<lambda>old_hdr new_hdr i res.
        nullval res = nullval new_hdr \<and> maxlen res = maxlen new_hdr \<and> len res = len new_hdr \<and>
        length (keys res) = length (keys new_hdr) \<and> length (vals res) = length (vals new_hdr)",
        OF _ assms])
     (auto simp: Let_def split: if_splits option.splits dest!: hmap_grow_place_frame)

lemma hmap64_grow_place_frame:
  assumes "hmap64_grow_place new_hdr key v j0 = Some res"
  shows "nullval64 res = nullval64 new_hdr \<and> cap res = cap new_hdr \<and> len64 res = len64 new_hdr \<and>
         length (keys64 res) = length (keys64 new_hdr) \<and> length (vals64 res) = length (vals64 new_hdr)"
  by (rule hmap64_grow_place.raw_induct[where P = "\<lambda>new_hdr key v j0 res.
        nullval64 res = nullval64 new_hdr \<and> cap res = cap new_hdr \<and> len64 res = len64 new_hdr \<and>
        length (keys64 res) = length (keys64 new_hdr) \<and> length (vals64 res) = length (vals64 new_hdr)",
        OF _ assms])
     (auto simp: Let_def split: if_splits)

lemma hmap64_grow_copy_frame:
  assumes "hmap64_grow_copy old_hdr new_hdr i = Some res"
  shows "nullval64 res = nullval64 new_hdr \<and> cap res = cap new_hdr \<and> len64 res = len64 new_hdr \<and>
         length (keys64 res) = length (keys64 new_hdr) \<and> length (vals64 res) = length (vals64 new_hdr)"
  by (rule hmap64_grow_copy.raw_induct[where P = "\<lambda>old_hdr new_hdr i res.
        nullval64 res = nullval64 new_hdr \<and> cap res = cap new_hdr \<and> len64 res = len64 new_hdr \<and>
        length (keys64 res) = length (keys64 new_hdr) \<and> length (vals64 res) = length (vals64 new_hdr)",
        OF _ assms])
     (auto simp: Let_def split: if_splits option.splits dest!: hmap64_grow_place_frame)







lemma HMAP__FIT1_len: "HMAP__FIT1 al es b = Some b' \<Longrightarrow> HMAP_LEN b' = HMAP_LEN b"
  by (cases b)
     (auto simp: HMAP__FIT1_def HMAP_LEN_def hmap__grow_def hmap_grow_new_def
           split: option.splits sum.splits if_splits)

lemma HMAP64__FIT1_len: "HMAP64__FIT1 al es b = Some b' \<Longrightarrow> HMAP64_LEN b' = HMAP64_LEN b"
  by (cases b)
     (auto simp: HMAP64__FIT1_def HMAP64_LEN_def hmap64__grow_def hmap64_grow_new_def
           split: option.splits sum.splits if_splits)



subsection \<open>Overflow in the size computation of a growth\<close>

lemma size_t_half_le: "(x :: size_t) div 2 \<le> 0x7FFFFFFFFFFFFFFF"
proof -
  have "unat (x div 2) = unat x div 2" by (simp add: unat_div)
  moreover have "unat x < 2 ^ 64" using unsigned_less[of x] by simp
  ultimately have "unat (x div 2) \<le> unat (0x7FFFFFFFFFFFFFFF :: size_t)" by simp
  then show ?thesis by (simp add: word_le_nat_alt)
qed

lemma hmap_grow_size_no_result:
  assumes "hmap_grow_size new_max reserve = Some y"
  shows "\<not> (odd new_max \<and> 0x7FFFFFFFFFFFFFFF \<le> reserve)"
proof (rule hmap_grow_size.raw_induct[where P = "\<lambda>new_max reserve y.
         \<not> (odd new_max \<and> 0x7FFFFFFFFFFFFFFF \<le> reserve)", OF _ assms], goal_cases)
  case (1 loop new_max reserve y)
  show ?case
  proof
    assume a: "odd new_max \<and> 0x7FFFFFFFFFFFFFFF \<le> reserve"
    then have nz: "new_max \<noteq> 0" by auto
    have half: "new_max div 2 \<le> reserve"
      using size_t_half_le[of new_max] a by (meson order_trans)
    have "odd (new_max * 2 + 1)" by simp
    then have nz': "new_max * 2 + 1 \<noteq> 0" by (metis even_zero)
    from 1(2) nz half nz' have "loop (new_max * 2 + 1) reserve = Some y"
      by (simp add: Let_def)
    from 1(1)[OF this] a show False by simp
  qed
qed

lemma hmap_grow_size_diverges:
  "odd new_max \<Longrightarrow> 0x7FFFFFFFFFFFFFFF \<le> reserve \<Longrightarrow> hmap_grow_size new_max reserve = None"
  using hmap_grow_size_no_result[of new_max reserve] by (cases "hmap_grow_size new_max reserve") auto

lemma hmap__grow_huge_reserve:
  "0x7FFFFFFFFFFFFFFF \<le> n \<Longrightarrow> hmap__grow al b es n = None"
  by (cases b) (simp_all add: hmap__grow_def hmap_grow_new_def hmap_grow_size_diverges)

lemma hmap64_grow_size_16_huge: "hmap64_grow_size 16 0x8000000000000000 = Some (Inl Overflow)"
  by code_simp

text \<open>
  Claim C3 (evaluation of the code). On the \<^verbatim>\<open>NULL\<close> handle, \<^verbatim>\<open>HMAP_TRYFIT\<close> with
  \<open>n = 2^63\<close> does not return in the 32-bit map, whatever the allocator does: the doubling
  \<open>new_max * 2 + 1\<close> is odd, so the overflow test of the loop never sees 0. The 64-bit map
  detects the overflow at the same request and returns the \<^verbatim>\<open>NULL\<close> handle and false.
\<close>

theorem hmap_tryfit_overflow_not_detected:
  "HMAP_TRYFIT al es None 0x8000000000000000 = None \<and>
   HMAP64_TRYFIT al es None 0x8000000000000000 = Some (None, False)"
  by (simp add: HMAP_TRYFIT_def HMAP_FIT_def hmap__grow_huge_reserve
      HMAP64_TRYFIT_def HMAP64_FIT_def hmap64__grow_def hmap64_grow_new_def hmap64_grow_size_16_huge)

text \<open>A growth whose size loop ends in the overflow return, or whose \<^verbatim>\<open>malloc\<close> or
  \<^verbatim>\<open>calloc\<close> returns null, returns the old handle: allocation, length and capacity are
  those before the call, and \<^verbatim>\<open>HMAP_FIT\<close> keeps the handle. The value of \<^verbatim>\<open>HMAP_TRYFIT\<close>
  is then the test \<open>n * 2 \<le> max\<close> (in the 64-bit map \<open>n * 2 < cap\<close>) on the old handle.\<close>

lemma hmap_failed_growth_keeps_handle:
  assumes "hmap_grow_size (case b of Some h \<Rightarrow> maxlen h * 2 + 1 | None \<Rightarrow> 15) n = Some s"
    and "s = Inl Overflow \<or>
         (\<exists>new_max. s = Inr new_max \<and> \<not> (malloc_ok al (sizeof_hdr + (new_max + 2) * es) \<and>
                                          calloc_ok al (new_max + 1) 4))"
  shows "hmap__grow al b es n = Some b \<and> HMAP_FIT al es b n = Some b \<and>
         HMAP_TRYFIT al es b n = Some (b, n = 0 \<or> (b \<noteq> None \<and> n * 2 \<le> HMAP_MAX b))"
proof -
  have g: "hmap__grow al b es n = Some b"
    using assms by (auto simp: hmap__grow_def hmap_grow_new_def)
  show ?thesis
    using g by (auto simp: HMAP_FIT_def HMAP_TRYFIT_def)
qed

lemma hmap64_failed_growth_keeps_handle:
  assumes "hmap64_grow_size (case c of Some h \<Rightarrow> cap h * 2 | None \<Rightarrow> 16) n = Some s"
    and "s = Inl Overflow \<or>
         (\<exists>new_cap. s = Inr new_cap \<and> \<not> (malloc_ok al (sizeof_hdr + (new_cap + 1) * es) \<and>
                                          calloc_ok al new_cap 8))"
  shows "hmap64__grow al c es n = Some c \<and> HMAP64_FIT al es c n = Some c \<and>
         HMAP64_TRYFIT al es c n = Some (c, n = 0 \<or> (c \<noteq> None \<and> n * 2 < HMAP64_CAP c))"
proof -
  have g: "hmap64__grow al c es n = Some c"
    using assms by (auto simp: hmap64__grow_def hmap64_grow_new_def)
  show ?thesis
    using g by (auto simp: HMAP64_FIT_def HMAP64_TRYFIT_def)
qed

lemma hmap_tryfit_out_of_memory:
  "HMAP_TRYFIT alloc_small 12 (Some hmap_one) (0x7FFF000000000000 div 12) = Some (Some hmap_one, False) \<and>
   HMAP64_TRYFIT alloc_small 12 (Some hmap64_one) (0x7FFF000000000000 div 12) =
     Some (Some hmap64_one, False)"
  by code_simp

text \<open>
  Claim C7 (evaluation of the code). \<^verbatim>\<open>HMAP_TRYFIT\<close> and \<^verbatim>\<open>HMAP64_TRYFIT\<close> with
  \<open>n = 2^63\<close> on a table of 16 slots return true, whatever the allocator does, and leave the
  table at 16 slots: the test \<open>n * 2 \<le> max\<close> (\<open>n * 2 < cap\<close>) is computed in \<^verbatim>\<open>size_t\<close>,
  where \<open>n * 2\<close> is 0, so no growth is attempted and the request is reported as fitting. In
  the 32-bit map this holds for every non-null handle.
\<close>

theorem hmap_tryfit_huge_reports_success:
  "HMAP_TRYFIT al es (Some h) 0x8000000000000000 = Some (Some h, True) \<and>
   HMAP_TRYFIT alloc_fail 12 (Some hmap_one) 0x8000000000000000 = Some (Some hmap_one, True) \<and>
   HMAP_CAP (Some hmap_one) = 16 \<and>
   HMAP64_TRYFIT alloc_fail 12 (Some hmap64_one) 0x8000000000000000 = Some (Some hmap64_one, True) \<and>
   HMAP64_CAP (Some hmap64_one) = 16"
proof -
  have w: "(0x8000000000000000 :: size_t) * 2 = 0" by simp
  have a: "HMAP_TRYFIT al es (Some h) 0x8000000000000000 = Some (Some h, True)"
    unfolding HMAP_TRYFIT_def HMAP_FIT_def by (simp only: w) simp
  have a': "HMAP_TRYFIT alloc_fail 12 (Some hmap_one) 0x8000000000000000 = Some (Some hmap_one, True)"
    by code_simp
  have b: "HMAP_CAP (Some hmap_one) = 16" by code_simp
  have c: "HMAP64_TRYFIT alloc_fail 12 (Some hmap64_one) 0x8000000000000000 =
      Some (Some hmap64_one, True)" by code_simp
  have d: "HMAP64_CAP (Some hmap64_one) = 16" by code_simp
  show ?thesis using a a' b c d by (intro conjI)
qed

subsection \<open>Read-only operations\<close>

text \<open>
  Claim C9 as stated fails for \<^verbatim>\<open>get\<close>: \<^verbatim>\<open>HMAP_GET\<close> runs the load-factor check first, and
  on the \<^verbatim>\<open>NULL\<close> handle this allocates a table, so the handle and the capacity change.
\<close>

theorem hmap_get_reallocates_counterexample:
  "HMAP_GET alloc_ok 8 None 5 =
     Some (Inr (Some \<lparr>len = 0, maxlen = 15, keys = replicate 16 0, nullval = 0,
                      vals = replicate 16 221\<rparr>, 0)) \<and>
   HMAP_CAP (None :: int hmap_hdr option) = 0 \<and>
   HMAP_CAP (Some \<lparr>len = 0, maxlen = 15, keys = replicate 16 0, nullval = (0 :: int),
                   vals = replicate 16 (221 :: int)\<rparr>) = 16"
  by code_simp

text \<open>
  Claim C9, amended. \<^verbatim>\<open>has\<close> and \<^verbatim>\<open>idx\<close> never reallocate: on every handle, also the
  \<^verbatim>\<open>NULL\<close> handle, and for every key they return the handle they were given, with its
  length and capacity. \<^verbatim>\<open>get\<close> never changes the length, on any handle. It returns the
  handle it was given, so also the capacity, whenever that handle is not \<^verbatim>\<open>NULL\<close> and
  passes the load-factor check (\<open>len * 2 \<le> maxlen\<close>, in the 64-bit map \<open>len * 2 < cap\<close>);
  on the other handles it runs the growth of that check first.
\<close>

theorem hmap_reads_keep_handle:
  "(HMAP_HAS b k = Some (b1, r) \<longrightarrow> b1 = b) \<and>
   (HMAP_IDX b k = Some (b2, i) \<longrightarrow> b2 = b) \<and>
   (HMAP_GET al es b k = Some (Inr (b3, v)) \<longrightarrow> HMAP_LEN b3 = HMAP_LEN b) \<and>
   (b \<noteq> None \<and> HMAP_LEN b * 2 \<le> HMAP_MAX b \<and> HMAP_GET al es b k = Some (Inr (b3, v)) \<longrightarrow> b3 = b) \<and>
   (HMAP64_HAS c k' = Some (c1, r') \<longrightarrow> c1 = c) \<and>
   (HMAP64_IDX c k' = Some (c2, i') \<longrightarrow> c2 = c) \<and>
   (HMAP64_GET al es c k' = Some (Inr (c3, v')) \<longrightarrow> HMAP64_LEN c3 = HMAP64_LEN c) \<and>
   (c \<noteq> None \<and> HMAP64_LEN c * 2 < HMAP64_CAP c \<and> HMAP64_GET al es c k' = Some (Inr (c3, v')) \<longrightarrow> c3 = c)"
proof -
  have 1: "HMAP_HAS b k = Some (b1, r) \<longrightarrow> b1 = b"
    by (auto simp: HMAP_HAS_def split: option.splits dest: hmap__idx_frame)
  have 2: "HMAP_IDX b k = Some (b2, i) \<longrightarrow> b2 = b"
    by (auto simp: HMAP_IDX_def split: option.splits dest: hmap__idx_frame)
  have 3: "b \<noteq> None \<and> HMAP_LEN b * 2 \<le> HMAP_MAX b \<and> HMAP_GET al es b k = Some (Inr (b3, v)) \<longrightarrow> b3 = b"
    by (auto simp: HMAP_GET_def HMAP__FIT1_def split: option.splits dest: hmap__idx_frame)
  have 4: "HMAP64_HAS c k' = Some (c1, r') \<longrightarrow> c1 = c"
    by (auto simp: HMAP64_HAS_def split: option.splits dest: hmap64__idx_frame)
  have 5: "HMAP64_IDX c k' = Some (c2, i') \<longrightarrow> c2 = c"
    by (auto simp: HMAP64_IDX_def split: option.splits dest: hmap64__idx_frame)
  have 6: "c \<noteq> None \<and> HMAP64_LEN c * 2 < HMAP64_CAP c \<and> HMAP64_GET al es c k' = Some (Inr (c3, v')) \<longrightarrow> c3 = c"
    by (auto simp: HMAP64_GET_def HMAP64__FIT1_def split: option.splits dest: hmap64__idx_frame)
  have 7: "HMAP_GET al es b k = Some (Inr (b3, v)) \<longrightarrow> HMAP_LEN b3 = HMAP_LEN b"
    by (auto simp: HMAP_GET_def split: option.splits dest!: HMAP__FIT1_len hmap__idx_frame)
  have 8: "HMAP64_GET al es c k' = Some (Inr (c3, v')) \<longrightarrow> HMAP64_LEN c3 = HMAP64_LEN c"
    by (auto simp: HMAP64_GET_def split: option.splits dest!: HMAP64__FIT1_len hmap64__idx_frame)
  show ?thesis using 1 2 3 4 5 6 7 8 by blast
qed

theorem hmap_reads_keep_handle_witness:
  "HMAP_HAS (Some hmap_one) 17 = Some (Some hmap_one, True) \<and>
   HMAP_IDX (Some hmap_one) 17 = Some (Some hmap_one, 1) \<and>
   Some hmap_one \<noteq> None \<and> HMAP_LEN (Some hmap_one) * 2 \<le> HMAP_MAX (Some hmap_one) \<and>
   HMAP_GET alloc_ok 8 (Some hmap_one) 17 = Some (Inr (Some hmap_one, 5)) \<and>
   HMAP_GET alloc_ok 8 (Some hmap_eight) 17 = Some (Inr (Some (hmap_eight_grown\<lparr>nullval := 0\<rparr>), 1)) \<and>
   HMAP_LEN (Some (hmap_eight_grown\<lparr>nullval := 0\<rparr>)) = HMAP_LEN (Some hmap_eight) \<and>
   HMAP_GET alloc_ok 8 None 17 = Some (Inr (Some (hmap_new_hdr alloc_ok 15\<lparr>nullval := 0\<rparr>), 0)) \<and>
   HMAP_LEN (Some (hmap_new_hdr alloc_ok 15\<lparr>nullval := 0\<rparr>)) = HMAP_LEN (None :: int hmap_hdr option) \<and>
   HMAP64_HAS (Some hmap64_one) 17 = Some (Some hmap64_one, True) \<and>
   HMAP64_IDX (Some hmap64_one) 17 = Some (Some hmap64_one, 1) \<and>
   Some hmap64_one \<noteq> None \<and> HMAP64_LEN (Some hmap64_one) * 2 < HMAP64_CAP (Some hmap64_one) \<and>
   HMAP64_GET alloc_ok 8 (Some hmap64_one) 17 = Some (Inr (Some hmap64_one, 5)) \<and>
   HMAP64_GET alloc_ok 8 (Some hmap64_stale_set) 31 = Some (Inr (Some hmap64_stale_grown, 200)) \<and>
   HMAP64_LEN (Some hmap64_stale_grown) = HMAP64_LEN (Some hmap64_stale_set)"
proof -
  have 1: "HMAP_HAS (Some hmap_one) 17 = Some (Some hmap_one, True)"
    by code_simp
  have 2: "HMAP_IDX (Some hmap_one) 17 = Some (Some hmap_one, 1)"
    by code_simp
  have 3: "HMAP_GET alloc_ok 8 (Some hmap_one) 17 = Some (Inr (Some hmap_one, 5))"
    by code_simp
  have f: "Some hmap_one \<noteq> None" "HMAP_LEN (Some hmap_one) * 2 \<le> HMAP_MAX (Some hmap_one)"
    by code_simp+
  have 4: "HMAP64_HAS (Some hmap64_one) 17 = Some (Some hmap64_one, True)"
    by code_simp
  have 5: "HMAP64_IDX (Some hmap64_one) 17 = Some (Some hmap64_one, 1)"
    by code_simp
  have 6: "HMAP64_GET alloc_ok 8 (Some hmap64_one) 17 = Some (Inr (Some hmap64_one, 5))"
    by code_simp
  have f': "Some hmap64_one \<noteq> None" "HMAP64_LEN (Some hmap64_one) * 2 < HMAP64_CAP (Some hmap64_one)"
    by code_simp+
  have 7: "HMAP_GET alloc_ok 8 (Some hmap_eight) 17 =
      Some (Inr (Some (hmap_eight_grown\<lparr>nullval := 0\<rparr>), 1))"
    by code_simp
  have 8: "HMAP64_GET alloc_ok 8 (Some hmap64_stale_set) 31 = Some (Inr (Some hmap64_stale_grown, 200))"
    by code_simp
  have 9: "HMAP_GET alloc_ok 8 None 17 = Some (Inr (Some (hmap_new_hdr alloc_ok 15\<lparr>nullval := 0\<rparr>), 0))"
    by code_simp
  have l7: "HMAP_LEN (Some (hmap_eight_grown\<lparr>nullval := 0\<rparr>)) = HMAP_LEN (Some hmap_eight)"
    by (rule hmap_reads_keep_handle[THEN conjunct2, THEN conjunct2, THEN conjunct1, THEN mp, OF 7])
  have l8: "HMAP64_LEN (Some hmap64_stale_grown) = HMAP64_LEN (Some hmap64_stale_set)"
    by (rule hmap_reads_keep_handle[THEN conjunct2, THEN conjunct2, THEN conjunct2, THEN conjunct2,
          THEN conjunct2, THEN conjunct2, THEN conjunct1, THEN mp, OF 8])
  have l9: "HMAP_LEN (Some (hmap_new_hdr alloc_ok 15\<lparr>nullval := 0\<rparr>)) =
      HMAP_LEN (None :: int hmap_hdr option)"
    by (rule hmap_reads_keep_handle[THEN conjunct2, THEN conjunct2, THEN conjunct1, THEN mp, OF 9])
  show ?thesis
    using 1 2 3 4 5 6 7 8 9 f f' l7 l8 l9 by (intro conjI)
qed


subsection \<open>The round trip in the 64-bit map\<close>

text \<open>
  Claim C6 (evaluation of the code). The run \<open>ops64_stale\<close> from the \<^verbatim>\<open>NULL\<close> handle ends
  in a 64-bit map in which \<^verbatim>\<open>HMAP64_SET(map, 31, 300)\<close> followed by \<^verbatim>\<open>HMAP64_GET(map, 31)\<close>
  returns 200: the deletion of key 15 left key 31 behind an empty slot, the \<^verbatim>\<open>set\<close> stores
  key 31 a second time, and the growth in \<^verbatim>\<open>get\<close> rehashes the older copy first.
\<close>

theorem hmap64_set_get_stale_value:
  "hmap64_run 8 None ops64_stale = Some (Inr (Some hmap64_stale)) \<and>
   HMAP64_SET alloc_ok 8 (Some hmap64_stale) 31 300 = Some (Inr (Some hmap64_stale_set)) \<and>
   HMAP64_GET alloc_ok 8 (Some hmap64_stale_set) 31 = Some (Inr (Some hmap64_stale_grown, 200))"
  by code_simp


subsection \<open>Setting the null value through key 0\<close>




end
